theory Spec2Isabelle
  imports Main "HOL-Library.Sublist"
begin

section \<open>The webpack configuration of ff7-viewer\<close>

text \<open>
  The repository's one source file, \<^verbatim>\<open>webpack.config.js\<close>, is a CommonJS module. When
  it is loaded it reads two things from its surroundings: the platform's \<^verbatim>\<open>path\<close>
  module (\<^verbatim>\<open>require('path')\<close>) and the directory of the file itself
  (\<^verbatim>\<open>__dirname\<close>). It computes two paths and exports one object literal. The model
  below is that module as a function of those two inputs.
\<close>

subsection \<open>The surroundings of the module\<close>

text \<open>
  \<^verbatim>\<open>const path = require('path')\<close>: of the module only \<^verbatim>\<open>resolve\<close> is called. It is
  variadic in JavaScript, so it takes the list of its arguments.
\<close>

record path_module =
  resolve :: "string list \<Rightarrow> string"

subsection \<open>The shape of the exported object\<close>

text \<open>\<^verbatim>\<open>output: { path, filename }\<close>\<close>

record output_options =
  path :: string
  filename :: string

text \<open>\<^verbatim>\<open>devServer: { static: { directory } }\<close>. The field \<^verbatim>\<open>static\<close> is called
  \<open>devServer_static\<close>, since the module also binds a constant of that name.\<close>

record static_options =
  directory :: string

record devServer_options =
  devServer_static :: static_options

text \<open>One rule of the copy plugin, \<^verbatim>\<open>{ from, to }\<close>.\<close>

record copy_pattern =
  pattern_from :: string
  pattern_to :: string

text \<open>The option objects handed to the two plugin constructors.\<close>

record copy_plugin_options =
  patterns :: "copy_pattern list"

record wasm_pack_options =
  crateDirectory :: string

text \<open>
  A plugin invocation \<^verbatim>\<open>new P(options)\<close> is the plugin's identity together with the
  options it was given. What the constructors do with the options belongs to the
  plugins, not to this module.
\<close>

datatype plugin =
    CopyWebpackPlugin copy_plugin_options
  | WasmPackPlugin wasm_pack_options

text \<open>
  The configuration object. \<^verbatim>\<open>entry\<close> and \<^verbatim>\<open>experiments\<close> are objects used as
  dictionaries (bundle name to source file, feature name to toggle); they are kept as
  association lists in the order the literal gives the keys.
\<close>

record configuration =
  mode :: string
  entry :: "(string \<times> string) list"
  "output" :: output_options
  devServer :: devServer_options
  plugins :: "plugin list"
  experiments :: "(string \<times> bool) list"

subsection \<open>The module body\<close>

text \<open>\<^verbatim>\<open>const dist = path.resolve(__dirname, './dist');\<close>\<close>

definition dist :: "path_module \<Rightarrow> string \<Rightarrow> string" where
  "dist path_mod dirname = resolve path_mod [dirname, ''./dist'']"

text \<open>\<^verbatim>\<open>const static = path.resolve(__dirname, './www');\<close>\<close>

definition static :: "path_module \<Rightarrow> string \<Rightarrow> string" where
  "static path_mod dirname = resolve path_mod [dirname, ''./www'']"

text \<open>\<^verbatim>\<open>const config = { ... }; module.exports = config;\<close>\<close>

definition config :: "path_module \<Rightarrow> string \<Rightarrow> configuration" where
  "config path_mod dirname =
     \<lparr> mode = ''production'',
       entry = [(''bootstrap'', ''./bootstrap.js'')],
       output = \<lparr> path = dist path_mod dirname, filename = ''[name].js'' \<rparr>,
       devServer = \<lparr> devServer_static = \<lparr> directory = dist path_mod dirname \<rparr> \<rparr>,
       plugins =
         [ CopyWebpackPlugin
             \<lparr> patterns =
                 [ \<lparr> pattern_from = static path_mod dirname,
                     pattern_to = dist path_mod dirname \<rparr> ] \<rparr>,
           WasmPackPlugin \<lparr> crateDirectory = dirname \<rparr> ],
       experiments = [(''asyncWebAssembly'', True)] \<rparr>"

subsection \<open>The directory-valued fields of the exported object\<close>



section \<open>The platform's path module on POSIX systems\<close>

text \<open>
  \<^verbatim>\<open>path.resolve\<close> belongs to Node.js, not to the repository. The properties of the
  configuration that hold for every \<open>path_module\<close> are proved for every one. Where a
  concrete path is wanted, this section supplies the POSIX flavour of the function as
  Node documents it: the arguments are taken from right to left, each non-empty one
  prepended, until an absolute path has been built; if none has, the working directory
  of the process is prepended as well; the result is normalised (empty and \<^verbatim>\<open>.\<close>
  segments dropped, \<^verbatim>\<open>..\<close> cancelling the segment before it) and carries no
  trailing slash.
\<close>

text \<open>\<^verbatim>\<open>p.split(sep)\<close>: the pieces of \<open>p\<close> between the separators.\<close>

fun split_on :: "char \<Rightarrow> string \<Rightarrow> string list" where
  "split_on sep [] = [[]]"
| "split_on sep (c # cs) =
     (if c = sep then [] # split_on sep cs
      else (case split_on sep cs of
              [] \<Rightarrow> [[c]]
            | s # ss \<Rightarrow> (c # s) # ss))"

text \<open>\<^verbatim>\<open>segments.join(sep)\<close>\<close>

fun join_with :: "char \<Rightarrow> string list \<Rightarrow> string" where
  "join_with sep [] = []"
| "join_with sep [s] = s"
| "join_with sep (s # t # ss) = s @ sep # join_with sep (t # ss)"

text \<open>
  One segment of the normalisation. \<open>res\<close> holds the segments kept so far, the last
  one first. A \<^verbatim>\<open>..\<close> removes the last kept segment; with nothing to remove (or
  only \<^verbatim>\<open>..\<close> segments kept) it is kept itself when the path may climb above its
  root, and dropped otherwise.
\<close>

fun normalize_segment :: "bool \<Rightarrow> string list \<Rightarrow> string \<Rightarrow> string list" where
  "normalize_segment allowAboveRoot res seg =
     (if seg = [] \<or> seg = ''.'' then res
      else if seg = ''..'' then
        (case res of
           [] \<Rightarrow> if allowAboveRoot then [''..''] else []
         | s # rest \<Rightarrow>
             if s = ''..'' then (if allowAboveRoot then ''..'' # res else res)
             else rest)
      else seg # res)"

definition normalizeString :: "string \<Rightarrow> bool \<Rightarrow> string" where
  "normalizeString p allowAboveRoot =
     join_with (CHR ''/'')
       (rev (foldl (normalize_segment allowAboveRoot) [] (split_on (CHR ''/'') p)))"

text \<open>\<^verbatim>\<open>path.isAbsolute\<close>: a non-empty path that starts with a slash.\<close>

definition posix_isAbsolute :: "string \<Rightarrow> bool" where
  "posix_isAbsolute p = (case p of [] \<Rightarrow> False | c # _ \<Rightarrow> c = CHR ''/'')"

text \<open>
  The loop of \<^verbatim>\<open>resolve\<close> over the paths still to be read (the last argument first,
  the working directory at the very end). It returns the path built and whether it is
  absolute.
\<close>

fun resolve_loop :: "string list \<Rightarrow> string \<Rightarrow> string \<times> bool" where
  "resolve_loop [] resolvedPath = (resolvedPath, False)"
| "resolve_loop (p # ps) resolvedPath =
     (if p = [] then resolve_loop ps resolvedPath
      else if posix_isAbsolute p then (p @ ''/'' @ resolvedPath, True)
      else resolve_loop ps (p @ ''/'' @ resolvedPath))"

definition posix_resolve :: "string \<Rightarrow> string list \<Rightarrow> string" where
  "posix_resolve cwd args =
     (case resolve_loop (rev args @ [cwd]) [] of
        (resolvedPath, resolvedAbsolute) \<Rightarrow>
          (let normalized = normalizeString resolvedPath (\<not> resolvedAbsolute)
           in if resolvedAbsolute then CHR ''/'' # normalized
              else if normalized \<noteq> [] then normalized else ''.''))"

text \<open>The path module of a process whose working directory is \<open>cwd\<close>.\<close>

definition posix :: "string \<Rightarrow> path_module" where
  "posix cwd = \<lparr> resolve = posix_resolve cwd \<rparr>"



section \<open>Facts about the POSIX path module\<close>

text \<open>
  With an absolute first argument the loop of \<^verbatim>\<open>resolve\<close> stops before it reaches
  the working directory, so the working directory has no part in the result.
\<close>

lemma posix_resolve_absolute_first:
  "posix_isAbsolute d \<Longrightarrow> posix_resolve cwd [d, r] = posix_resolve cwd' [d, r]"
  by (cases d) (simp_all add: posix_resolve_def posix_isAbsolute_def)

text \<open>With an absolute first argument the resolved path is absolute.\<close>

lemma posix_resolve_is_absolute:
  "posix_isAbsolute d \<Longrightarrow> posix_isAbsolute (posix_resolve cwd [d, r])"
  by (cases d) (simp_all add: posix_resolve_def posix_isAbsolute_def Let_def)

text \<open>The configuration a checkout at \<^verbatim>\<open>/home/user/ff7-viewer\<close> exports.\<close>

lemma config_of_a_checkout:
  "config (posix ''/tmp'') ''/home/user/ff7-viewer'' =
     \<lparr> mode = ''production'',
       entry = [(''bootstrap'', ''./bootstrap.js'')],
       output = \<lparr> path = ''/home/user/ff7-viewer/dist'', filename = ''[name].js'' \<rparr>,
       devServer = \<lparr> devServer_static = \<lparr> directory = ''/home/user/ff7-viewer/dist'' \<rparr> \<rparr>,
       plugins =
         [ CopyWebpackPlugin
             \<lparr> patterns =
                 [ \<lparr> pattern_from = ''/home/user/ff7-viewer/www'',
                     pattern_to = ''/home/user/ff7-viewer/dist'' \<rparr> ] \<rparr>,
           WasmPackPlugin \<lparr> crateDirectory = ''/home/user/ff7-viewer'' \<rparr> ],
       experiments = [(''asyncWebAssembly'', True)] \<rparr>"
  by (simp add: config_def dist_def static_def posix_def posix_resolve_def
        normalizeString_def posix_isAbsolute_def)











section \<open>Properties of the exported configuration\<close>

text \<open>
  C1. The output directory and the directory served by the dev server are one and the
  same path: both \<open>output.path\<close> and \<open>devServer.static.directory\<close> hold the path
  obtained by resolving \<^verbatim>\<open>'./dist'\<close> against the directory of the configuration file.
\<close>

theorem output_path_is_served_directory:
  "path (output (config path_mod dirname)) =
     directory (devServer_static (devServer (config path_mod dirname)))
   \<and> path (output (config path_mod dirname)) = resolve path_mod [dirname, ''./dist'']
   \<and> directory (devServer_static (devServer (config path_mod dirname))) =
       resolve path_mod [dirname, ''./dist'']"
  by (simp add: config_def dist_def)

text \<open>
  C2. The \<open>plugins\<close> field is a sequence of exactly two plugin invocations: the
  asset-copy plugin (CopyWebpackPlugin) first, the foreign-crate-compile plugin
  (WasmPackPlugin) second.
\<close>

theorem plugins_copy_then_wasm_pack:
  "\<exists>copy_opts wasm_opts.
     plugins (config path_mod dirname) =
       [CopyWebpackPlugin copy_opts, WasmPackPlugin wasm_opts]"
  by (simp add: config_def)

text \<open>
  C3. The entry mapping has exactly one entry; its bundle name is \<^verbatim>\<open>bootstrap\<close> and
  the source path it maps to ends in the file name \<^verbatim>\<open>bootstrap.js\<close>: the path has
  that suffix, and its last segment is that name.
\<close>

theorem entry_single_bootstrap:
  "\<exists>src. entry (config path_mod dirname) = [(''bootstrap'', src)]
     \<and> suffix ''bootstrap.js'' src
     \<and> last (split_on (CHR ''/'') src) = ''bootstrap.js''"
  by (simp add: config_def suffix_Cons)

text \<open>
  C4. The asset-copy plugin is invoked with exactly one copy rule. The rule's source is
  the static-assets directory, \<^verbatim>\<open>'./www'\<close> resolved against the directory of the
  configuration file; its destination is the output directory, the very path held by
  \<open>output.path\<close>.
\<close>

theorem copy_plugin_single_rule:
  "(\<exists>others. plugins (config path_mod dirname) =
      CopyWebpackPlugin
        \<lparr> patterns = [\<lparr> pattern_from = static path_mod dirname,
                        pattern_to = dist path_mod dirname \<rparr>] \<rparr> # others)
   \<and> static path_mod dirname = resolve path_mod [dirname, ''./www'']
   \<and> dist path_mod dirname = resolve path_mod [dirname, ''./dist'']
   \<and> dist path_mod dirname = path (output (config path_mod dirname))"
  by (simp add: config_def dist_def static_def)

text \<open>
  C5. The output filename pattern has no content-hash placeholder. The pattern is
  \<^verbatim>\<open>[name].js\<close>: it carries the entry name's placeholder, and the word \<^verbatim>\<open>hash\<close>,
  which every hash placeholder of webpack contains (\<^verbatim>\<open>[hash]\<close>, \<^verbatim>\<open>[fullhash]\<close>,
  \<^verbatim>\<open>[chunkhash]\<close>, \<^verbatim>\<open>[contenthash]\<close>, \<^verbatim>\<open>[modulehash]\<close>), occurs nowhere in it.
\<close>

theorem filename_without_hash:
  "filename (output (config path_mod dirname)) = ''[name].js''
   \<and> \<not> sublist ''hash'' (filename (output (config path_mod dirname)))
   \<and> sublist ''[name]'' (filename (output (config path_mod dirname)))"
  by (simp add: config_def sublist_Cons_right)

text \<open>
  C6. The experiments of the configuration enable asynchronous WebAssembly: the flag
  \<^verbatim>\<open>asyncWebAssembly\<close> is present and its value is true.
\<close>

theorem experiments_asyncWebAssembly:
  "map_of (experiments (config path_mod dirname)) ''asyncWebAssembly'' = Some True"
  by (simp add: config_def)



text \<open>
  C8. Building the configuration is deterministic: two evaluations of the module with
  the same \<^verbatim>\<open>__dirname\<close> export equal configurations. The module reads nothing but
  its path module and \<^verbatim>\<open>__dirname\<close>, and the one ambient input of the platform's
  \<^verbatim>\<open>path.resolve\<close>, the working directory of the process, does not reach the
  result: \<^verbatim>\<open>__dirname\<close> is an absolute path, as Node always provides it, so the two
  evaluations may run in different working directories.
\<close>

theorem config_deterministic:
  "posix_isAbsolute dirname \<Longrightarrow>
     config (posix cwd) dirname = config (posix cwd') dirname"
  by (simp add: config_def dist_def static_def posix_def
        posix_resolve_absolute_first [of dirname cwd _ cwd'])

text \<open>
  C8 at a concrete input: the configuration file in \<^verbatim>\<open>/repo\<close>, evaluated once from
  \<^verbatim>\<open>/tmp\<close> and once from \<^verbatim>\<open>/home/user\<close>.
\<close>

theorem config_deterministic_witness:
  "posix_isAbsolute ''/repo''
   \<and> config (posix ''/tmp'') ''/repo'' = config (posix ''/home/user'') ''/repo''"
  using config_deterministic [of "''/repo''" "''/tmp''" "''/home/user''"]
  by (simp add: posix_isAbsolute_def)

text \<open>
  C9. The \<open>mode\<close> field is exactly the string \<^verbatim>\<open>production\<close>.
\<close>

theorem mode_production:
  "mode (config path_mod dirname) = ''production''"
  by (simp add: config_def)

text \<open>
  C10. The crate directory handed to the WasmPackPlugin is the directory of the
  configuration file itself, \<^verbatim>\<open>__dirname\<close>, and no subdirectory of it.
\<close>

theorem crateDirectory_is_dirname:
  "\<exists>first. plugins (config path_mod dirname) =
     [first, WasmPackPlugin \<lparr> crateDirectory = dirname \<rparr>]"
  by (simp add: config_def)

end
